theory Spec2Isabelle
  imports Complex_Main
begin

section \<open>Numbers\<close>

text \<open>
  A value of the source's type \<open>number\<close> is either one of the three special values
  \<open>NaN\<close>, \<open>-Infinity\<close>, \<open>Infinity\<close> or a finite number. Finite numbers are embedded as exact
  rationals: the binary rounding of each operation, overflow to infinity and the sign of
  zero are outside the model. The operators below follow the rules of the language for the
  special values, so that every branch the code can take on them is a branch of the model.
\<close>

datatype number = NaN | NegInf | Fin rat | PosInf

fun js_neg :: "number \<Rightarrow> number" where
  "js_neg NaN = NaN"
| "js_neg NegInf = PosInf"
| "js_neg PosInf = NegInf"
| "js_neg (Fin a) = Fin (- a)"

fun js_add :: "number \<Rightarrow> number \<Rightarrow> number" where
  "js_add (Fin a) (Fin b) = Fin (a + b)"
| "js_add (Fin a) NegInf = NegInf"
| "js_add (Fin a) PosInf = PosInf"
| "js_add NegInf (Fin b) = NegInf"
| "js_add PosInf (Fin b) = PosInf"
| "js_add NegInf NegInf = NegInf"
| "js_add PosInf PosInf = PosInf"
| "js_add NegInf PosInf = NaN"
| "js_add PosInf NegInf = NaN"
| "js_add NaN y = NaN"
| "js_add x NaN = NaN"

definition js_sub :: "number \<Rightarrow> number \<Rightarrow> number" where
  "js_sub x y = js_add x (js_neg y)"

text \<open>The sign of an infinite product; a zero factor gives \<open>NaN\<close>.\<close>

definition signed_inf :: "rat \<Rightarrow> number" where
  "signed_inf a = (if a = 0 then NaN else if 0 < a then PosInf else NegInf)"

fun js_mul :: "number \<Rightarrow> number \<Rightarrow> number" where
  "js_mul (Fin a) (Fin b) = Fin (a * b)"
| "js_mul (Fin a) PosInf = signed_inf a"
| "js_mul (Fin a) NegInf = signed_inf (- a)"
| "js_mul PosInf (Fin b) = signed_inf b"
| "js_mul NegInf (Fin b) = signed_inf (- b)"
| "js_mul PosInf PosInf = PosInf"
| "js_mul NegInf NegInf = PosInf"
| "js_mul PosInf NegInf = NegInf"
| "js_mul NegInf PosInf = NegInf"
| "js_mul NaN y = NaN"
| "js_mul x NaN = NaN"

text \<open>
  Division. A finite divisor that is zero is taken as positive zero. An infinite dividend
  over a finite divisor keeps its sign for a divisor that is not negative.
\<close>

fun js_div :: "number \<Rightarrow> number \<Rightarrow> number" where
  "js_div (Fin a) (Fin b) = (if b = 0 then signed_inf a else Fin (a / b))"
| "js_div (Fin a) PosInf = Fin 0"
| "js_div (Fin a) NegInf = Fin 0"
| "js_div PosInf (Fin b) = (if b < 0 then NegInf else PosInf)"
| "js_div NegInf (Fin b) = (if b < 0 then PosInf else NegInf)"
| "js_div PosInf PosInf = NaN"
| "js_div NegInf NegInf = NaN"
| "js_div PosInf NegInf = NaN"
| "js_div NegInf PosInf = NaN"
| "js_div NaN y = NaN"
| "js_div x NaN = NaN"

text \<open>The comparison \<open>x < y\<close> of the language: false as soon as one side is \<open>NaN\<close>.\<close>

fun js_lt :: "number \<Rightarrow> number \<Rightarrow> bool" where
  "js_lt (Fin a) (Fin b) = (a < b)"
| "js_lt (Fin a) PosInf = True"
| "js_lt (Fin a) NegInf = False"
| "js_lt NegInf (Fin b) = True"
| "js_lt PosInf (Fin b) = False"
| "js_lt NegInf PosInf = True"
| "js_lt NegInf NegInf = False"
| "js_lt PosInf y = False"
| "js_lt NaN y = False"
| "js_lt x NaN = False"

definition js_gt :: "number \<Rightarrow> number \<Rightarrow> bool" where
  "js_gt x y = js_lt y x"

text \<open>The comparison \<open>x <= y\<close> of the language.\<close>

definition js_le :: "number \<Rightarrow> number \<Rightarrow> bool" where
  "js_le x y = (x \<noteq> NaN \<and> y \<noteq> NaN \<and> \<not> js_lt y x)"

text \<open>\<open>Math.round\<close>: the nearest integer, a tie going towards \<open>+Infinity\<close>.\<close>

fun Math_round :: "number \<Rightarrow> number" where
  "Math_round (Fin a) = Fin (of_int \<lfloor>a + 1 / 2\<rfloor>)"
| "Math_round x = x"

definition Number_isNaN :: "number \<Rightarrow> bool" where
  "Number_isNaN x = (x = NaN)"

section \<open>The bracket table\<close>

text \<open>
  The fields \<open>min\<close> and \<open>max\<close> of a bracket are named \<open>min_b\<close> and \<open>max_b\<close> here.
\<close>

record TaxBracket =
  min_b :: number
  max_b :: number
  rate :: number
  base :: number

record TaxResult =
  year :: string
  income :: number
  tax :: number
  afterTax :: number
  effectiveRate :: number

text \<open>
  \<open>TAX_BRACKETS\<close> is an object literal with two own keys. It is kept as an association
  list, since \<open>Object.keys\<close> returns the keys in insertion order.
\<close>

definition TAX_BRACKETS :: "(string \<times> TaxBracket list) list" where
  "TAX_BRACKETS =
    [(''2023-2024'',
      [\<lparr>min_b = Fin 0, max_b = Fin 18200, rate = Fin 0, base = Fin 0\<rparr>,
       \<lparr>min_b = Fin 18200, max_b = Fin 45000, rate = Fin (19 / 100), base = Fin 0\<rparr>,
       \<lparr>min_b = Fin 45000, max_b = Fin 120000, rate = Fin (325 / 1000), base = Fin 5092\<rparr>,
       \<lparr>min_b = Fin 120000, max_b = Fin 180000, rate = Fin (37 / 100), base = Fin 29467\<rparr>,
       \<lparr>min_b = Fin 180000, max_b = PosInf, rate = Fin (45 / 100), base = Fin 51667\<rparr>]),
     (''2024-2025'',
      [\<lparr>min_b = Fin 0, max_b = Fin 18200, rate = Fin 0, base = Fin 0\<rparr>,
       \<lparr>min_b = Fin 18200, max_b = Fin 45000, rate = Fin (16 / 100), base = Fin 0\<rparr>,
       \<lparr>min_b = Fin 45000, max_b = Fin 135000, rate = Fin (3 / 10), base = Fin 4288\<rparr>,
       \<lparr>min_b = Fin 135000, max_b = Fin 190000, rate = Fin (37 / 100), base = Fin 31388\<rparr>,
       \<lparr>min_b = Fin 190000, max_b = PosInf, rate = Fin (45 / 100), base = Fin 51838\<rparr>])]"

text \<open>
  Reading a property of an object literal also finds the members the object inherits from
  \<open>Object.prototype\<close>. These are functions, or the prototype object itself for
  \<open>__proto__\<close>: values that are truthy and have no \<open>findLast\<close> method.
\<close>

definition Object_prototype_keys :: "string list" where
  "Object_prototype_keys =
    [''constructor'', ''hasOwnProperty'', ''isPrototypeOf'', ''propertyIsEnumerable'',
     ''toLocaleString'', ''toString'', ''valueOf'', ''__proto__'',
     ''__defineGetter__'', ''__defineSetter__'', ''__lookupGetter__'', ''__lookupSetter__'']"

datatype property = Undefined | Inherited | Own "TaxBracket list"

definition get_property :: "string \<Rightarrow> property" where
  "get_property key =
    (case map_of TAX_BRACKETS key of
       Some brackets \<Rightarrow> Own brackets
     | None \<Rightarrow> if key \<in> set Object_prototype_keys then Inherited else Undefined)"

definition Object_keys :: "(string \<times> 'a) list \<Rightarrow> string list" where
  "Object_keys obj = map fst obj"

section \<open>TaxService\<close>

datatype error = Error string | TypeError

definition getAvailableYears :: "string list" where
  "getAvailableYears = Object_keys TAX_BRACKETS"

text \<open>\<open>Array.prototype.findLast\<close>: the first element, scanning from the end, that satisfies the test.\<close>

definition findLast :: "('a \<Rightarrow> bool) \<Rightarrow> 'a list \<Rightarrow> 'a option" where
  "findLast p xs = List.find p (rev xs)"

definition calculateTax :: "string \<Rightarrow> number \<Rightarrow> error + number" where
  "calculateTax yr inc =
    (case get_property yr of
       Undefined \<Rightarrow> Inl (Error (''Invalid tax year: '' @ yr))
     | Inherited \<Rightarrow> Inl TypeError
     | Own brackets \<Rightarrow>
        (case findLast (\<lambda>b. js_gt inc (min_b b)) brackets of
           None \<Rightarrow> Inr (Fin 0)
         | Some bracket \<Rightarrow>
            (let t = js_add (base bracket) (js_mul (js_sub inc (min_b bracket)) (rate bracket))
             in Inr (js_div (Math_round (js_mul t (Fin 100))) (Fin 100)))))"

definition calculateResult :: "string \<Rightarrow> number \<Rightarrow> error + TaxResult" where
  "calculateResult yr inc =
    (case calculateTax yr inc of
       Inl e \<Rightarrow> Inl e
     | Inr t \<Rightarrow>
        Inr \<lparr>year = yr, income = inc, tax = t, afterTax = js_sub inc t,
             effectiveRate =
               (if js_gt inc (Fin 0) then js_mul (js_div t inc) (Fin 100) else Fin 0)\<rparr>)"

section \<open>Strings\<close>

text \<open>
  A string is a list of characters, one per code unit; code units above 255 are outside the
  model. White space is what \<open>trim\<close> and the conversion of a string to a number strip:
  tab, line feed, vertical tab, form feed, carriage return, space and no-break space.
\<close>

definition is_white_space :: "char \<Rightarrow> bool" where
  "is_white_space c =
     (c \<in> set [CHR 0x09, CHR 0x0A, CHR 0x0B, CHR 0x0C, CHR 0x0D, CHR 0x20, CHR 0xA0])"

definition trim :: "string \<Rightarrow> string" where
  "trim s = rev (dropWhile is_white_space (rev (dropWhile is_white_space s)))"

definition is_digit :: "char \<Rightarrow> bool" where
  "is_digit c = (c \<in> set ''0123456789'')"

text \<open>\<open>Array.prototype.join\<close> on strings.\<close>

fun join :: "string \<Rightarrow> string list \<Rightarrow> string" where
  "join sep [] = []"
| "join sep [x] = x"
| "join sep (x # y # ys) = x @ sep @ join sep (y # ys)"

text \<open>
  The regular expression \<open>/^\d{4}-\d{4}$/\<close> has no flag, so both anchors are the ends of the
  input: it accepts exactly the strings of nine characters made of four decimal digits, a
  hyphen and four decimal digits.
\<close>

definition year_pattern_test :: "string \<Rightarrow> bool" where
  "year_pattern_test s =
     (length s = 9 \<and> list_all is_digit (take 4 s) \<and> s ! 4 = CHR ''-''
      \<and> list_all is_digit (drop 5 s))"

subsection \<open>Conversion of a string to a number\<close>

text \<open>
  \<open>Number(input)\<close> is a function of the language, not of the program. It is modelled after
  the grammar of numeric strings: surrounding white space is dropped; the empty string is 0;
  \<open>0x\<close>, \<open>0o\<close> and \<open>0b\<close> introduce an unsigned integer in base 16, 8 or 2; anything else is
  an optionally signed decimal literal (\<open>Infinity\<close>, or digits with an optional fraction and
  an optional exponent); every other string is \<open>NaN\<close>.
\<close>

definition digit_of :: "char \<Rightarrow> nat option" where
  "digit_of c =
     (let n = (of_char c :: nat)
      in if 48 \<le> n \<and> n \<le> 57 then Some (n - 48)
         else if 97 \<le> n \<and> n \<le> 102 then Some (n - 87)
         else if 65 \<le> n \<and> n \<le> 70 then Some (n - 55)
         else None)"

fun radix_value :: "nat \<Rightarrow> string \<Rightarrow> nat \<Rightarrow> nat option" where
  "radix_value r [] acc = Some acc"
| "radix_value r (c # cs) acc =
     (case digit_of c of
        Some d \<Rightarrow> if d < r then radix_value r cs (acc * r + d) else None
      | None \<Rightarrow> None)"

definition NonDecimalIntegerLiteral :: "nat \<Rightarrow> string \<Rightarrow> number" where
  "NonDecimalIntegerLiteral r ds =
     (if ds = [] then NaN
      else case radix_value r ds 0 of Some n \<Rightarrow> Fin (of_nat n) | None \<Rightarrow> NaN)"

definition SignedInteger :: "string \<Rightarrow> int option" where
  "SignedInteger s =
     (case s of
        [] \<Rightarrow> None
      | c # r \<Rightarrow>
          if c = CHR ''+'' \<or> c = CHR ''-'' then
            (if r = [] then None
             else map_option (\<lambda>n. if c = CHR ''-'' then - int n else int n) (radix_value 10 r 0))
          else map_option int (radix_value 10 s 0))"

definition is_exponent_indicator :: "char \<Rightarrow> bool" where
  "is_exponent_indicator c = (c = CHR ''e'' \<or> c = CHR ''E'')"

definition StrUnsignedDecimalLiteral :: "string \<Rightarrow> number" where
  "StrUnsignedDecimalLiteral s =
     (if s = ''Infinity'' then PosInf
      else
        let m = takeWhile (\<lambda>c. \<not> is_exponent_indicator c) s;
            x = dropWhile (\<lambda>c. \<not> is_exponent_indicator c) s;
            ip = takeWhile (\<lambda>c. c \<noteq> CHR ''.'') m;
            fp = drop 1 (dropWhile (\<lambda>c. c \<noteq> CHR ''.'') m)
        in if ip = [] \<and> fp = [] then NaN
           else
             case (radix_value 10 ip 0, radix_value 10 fp 0,
                   if x = [] then Some 0 else SignedInteger (drop 1 x)) of
               (Some i, Some f, Some e) \<Rightarrow>
                 Fin ((of_nat i + of_nat f / 10 ^ length fp)
                      * (if 0 \<le> e then 10 ^ nat e else 1 / 10 ^ nat (- e)))
             | _ \<Rightarrow> NaN)"

definition Number :: "string \<Rightarrow> number" where
  "Number input =
     (let t = trim input
      in if t = [] then Fin 0
         else if take 2 t = ''0x'' \<or> take 2 t = ''0X'' then NonDecimalIntegerLiteral 16 (drop 2 t)
         else if take 2 t = ''0o'' \<or> take 2 t = ''0O'' then NonDecimalIntegerLiteral 8 (drop 2 t)
         else if take 2 t = ''0b'' \<or> take 2 t = ''0B'' then NonDecimalIntegerLiteral 2 (drop 2 t)
         else if hd t = CHR ''+'' then StrUnsignedDecimalLiteral (tl t)
         else if hd t = CHR ''-'' then js_neg (StrUnsignedDecimalLiteral (tl t))
         else StrUnsignedDecimalLiteral t)"

section \<open>The validators\<close>

datatype 'a ValidationOutcome = Success 'a | Failure string

definition validateYear :: "string \<Rightarrow> string ValidationOutcome" where
  "validateYear input =
     (let availableYears = getAvailableYears
      in if trim input = [] then Failure ''Year cannot be empty''
         else if \<not> year_pattern_test input then
           Failure ''Year must be in format YYYY-YYYY (e.g., 2023-2024)''
         else if input \<notin> set availableYears then
           Failure (''Year '' @ [CHR 0x22] @ input @ [CHR 0x22]
                    @ '' not available. Choose from: '' @ join '', '' availableYears)
         else Success input)"

definition validateIncome :: "string \<Rightarrow> number ValidationOutcome" where
  "validateIncome input =
     (if trim input = [] then Failure ''Income cannot be empty''
      else
        let inc = Number input
        in if Number_isNaN inc then Failure ''Please enter a valid numeric income''
           else if js_lt inc (Fin 0) then Failure ''Income cannot be negative''
           else if js_gt inc (Fin (99999999999 / 100)) then
             Failure ''Income exceeds maximum allowed value''
           else Success inc)"

section \<open>The interactive driver\<close>

text \<open>
  The two collaborators of \<open>TaxCalculator\<close> are interfaces. The input provider is modelled
  by the answers it is going to give, in order; each call of \<open>prompt\<close> records the question
  and takes the next answer. When no answer is left the request never resolves and the
  caller does not return, which is the value \<open>None\<close>. The output provider is modelled by
  the sequence of calls it has received.
\<close>

datatype event = Log string | ShowResult TaxResult

record io =
  answers :: "string list"
  asked :: "string list"
  outputs :: "event list"

definition prompt :: "string \<Rightarrow> io \<Rightarrow> (string \<times> io) option" where
  "prompt question s =
     (case answers s of
        [] \<Rightarrow> None
      | a # rest \<Rightarrow> Some (a, s\<lparr>answers := rest, asked := asked s @ [question]\<rparr>))"

definition log :: "string \<Rightarrow> io \<Rightarrow> io" where
  "log message s = s\<lparr>outputs := outputs s @ [Log message]\<rparr>"

definition showResult :: "TaxResult \<Rightarrow> io \<Rightarrow> io" where
  "showResult result s = s\<lparr>outputs := outputs s @ [ShowResult result]\<rparr>"

function getValidYear :: "io \<Rightarrow> (string \<times> io) option" where
  "getValidYear s =
     (case prompt ''Please enter the income year (e.g., 2023-2024): '' s of
        None \<Rightarrow> None
      | Some (yearInput, s') \<Rightarrow>
          (case validateYear yearInput of
             Success d \<Rightarrow> Some (d, s')
           | Failure e \<Rightarrow> getValidYear (log e s')))"
  by pat_completeness auto
termination
  by (relation "measure (\<lambda>s. length (answers s))")
    (auto simp: prompt_def log_def split: list.splits)

function getValidIncome :: "io \<Rightarrow> (number \<times> io) option" where
  "getValidIncome s =
     (case prompt ''Please enter your total taxable income: $'' s of
        None \<Rightarrow> None
      | Some (incomeInput, s') \<Rightarrow>
          (case validateIncome incomeInput of
             Success d \<Rightarrow> Some (d, s')
           | Failure e \<Rightarrow> getValidIncome (log e s')))"
  by pat_completeness auto
termination
  by (relation "measure (\<lambda>s. length (answers s))")
    (auto simp: prompt_def log_def split: list.splits)

declare getValidYear.simps [simp del] getValidIncome.simps [simp del]

text \<open>
  \<open>run\<close> returns the result record, or the error that \<open>calculateResult\<close> threw, together
  with the state of the collaborators.
\<close>

definition run :: "io \<Rightarrow> ((error + TaxResult) \<times> io) option" where
  "run s =
     (case getValidYear s of
        None \<Rightarrow> None
      | Some (yr, s1) \<Rightarrow>
          (case getValidIncome s1 of
             None \<Rightarrow> None
           | Some (inc, s2) \<Rightarrow>
               (case calculateResult yr inc of
                  Inl e \<Rightarrow> Some (Inl e, s2)
                | Inr result \<Rightarrow> Some (Inr result, showResult result s2))))"

section \<open>Derived notions used in the statements\<close>

text \<open>
  The tax accumulated at the lower bound of bracket \<open>i\<close>, computed from the bracket below
  it: its base plus its rate applied to its whole width.
\<close>

definition accumulated_base :: "TaxBracket list \<Rightarrow> nat \<Rightarrow> number" where
  "accumulated_base bs i =
     js_add (base (bs ! (i - 1)))
       (js_mul (js_sub (min_b (bs ! i)) (min_b (bs ! (i - 1)))) (rate (bs ! (i - 1))))"

text \<open>
  The tax before rounding as a function of a finite income, one function per year of the
  table; \<open>to_cents\<close> is the rounding step on a finite amount. The lemmas
  \<open>calculateTax_2023_Fin\<close> and \<open>calculateTax_2024_Fin\<close> derive them from \<open>calculateTax\<close>.
\<close>

definition unrounded_2023 :: "rat \<Rightarrow> rat" where
  "unrounded_2023 x =
     (if 180000 < x then 51667 + (x - 180000) * (45 / 100)
      else if 120000 < x then 29467 + (x - 120000) * (37 / 100)
      else if 45000 < x then 5092 + (x - 45000) * (325 / 1000)
      else if 18200 < x then 0 + (x - 18200) * (19 / 100)
      else 0)"

definition unrounded_2024 :: "rat \<Rightarrow> rat" where
  "unrounded_2024 x =
     (if 190000 < x then 51838 + (x - 190000) * (45 / 100)
      else if 135000 < x then 31388 + (x - 135000) * (37 / 100)
      else if 45000 < x then 4288 + (x - 45000) * (3 / 10)
      else if 18200 < x then 0 + (x - 18200) * (16 / 100)
      else 0)"

definition to_cents :: "rat \<Rightarrow> rat" where
  "to_cents t = of_int \<lfloor>t * 100 + 1 / 2\<rfloor> / 100"


section \<open>Evaluation of the table lookup\<close>

lemma floor_rat_numeral: "\<lfloor>(numeral a :: rat) / numeral b\<rfloor> = numeral a div numeral b"
  using floor_divide_of_int_eq [of "numeral a" "numeral b", where ?'a = rat] by simp

lemma get_property_2023: "get_property ''2023-2024'' = Own (snd (TAX_BRACKETS ! 0))"
  by (simp add: get_property_def TAX_BRACKETS_def)

lemma get_property_2024: "get_property ''2024-2025'' = Own (snd (TAX_BRACKETS ! 1))"
  by (simp add: get_property_def TAX_BRACKETS_def)

lemma floor_rat_half: "\<lfloor>(1::rat) / 2\<rfloor> = 0"
  by (simp add: floor_eq_iff)

lemma member_getAvailableYears:
  "yr \<in> set getAvailableYears \<longleftrightarrow> yr = ''2023-2024'' \<or> yr = ''2024-2025''"
  by (auto simp: getAvailableYears_def Object_keys_def TAX_BRACKETS_def)

lemma map_of_TAX_BRACKETS_Some:
  "map_of TAX_BRACKETS yr = Some bs \<longleftrightarrow>
     (yr = ''2023-2024'' \<and> bs = snd (TAX_BRACKETS ! 0)) \<or>
     (yr = ''2024-2025'' \<and> bs = snd (TAX_BRACKETS ! 1))"
  by (auto simp: TAX_BRACKETS_def)

lemma map_of_TAX_BRACKETS_None:
  "map_of TAX_BRACKETS yr = None \<longleftrightarrow> \<not> yr \<in> set getAvailableYears"
  by (auto simp: getAvailableYears_def Object_keys_def TAX_BRACKETS_def)

lemma calculateTax_2023_Fin:
  "calculateTax ''2023-2024'' (Fin x) = Inr (Fin (to_cents (unrounded_2023 x)))"
  by (simp add: calculateTax_def get_property_2023 TAX_BRACKETS_def findLast_def js_gt_def
      js_sub_def unrounded_2023_def floor_rat_half to_cents_def)

lemma calculateTax_2024_Fin:
  "calculateTax ''2024-2025'' (Fin x) = Inr (Fin (to_cents (unrounded_2024 x)))"
  by (simp add: calculateTax_def get_property_2024 TAX_BRACKETS_def findLast_def js_gt_def
      js_sub_def unrounded_2024_def floor_rat_half to_cents_def)

lemma calculateTax_special:
  assumes "yr \<in> set getAvailableYears"
  shows "calculateTax yr NaN = Inr (Fin 0)" "calculateTax yr NegInf = Inr (Fin 0)"
    "calculateTax yr PosInf = Inr PosInf"
  using assms unfolding member_getAvailableYears
  by (auto simp: calculateTax_def get_property_2023 get_property_2024 TAX_BRACKETS_def
      findLast_def js_gt_def js_sub_def signed_inf_def)

lemma unrounded_2023_mono: "x \<le> y \<Longrightarrow> unrounded_2023 x \<le> unrounded_2023 y"
  unfolding unrounded_2023_def by (auto split: if_splits simp: field_simps)

lemma unrounded_2024_mono: "x \<le> y \<Longrightarrow> unrounded_2024 x \<le> unrounded_2024 y"
  unfolding unrounded_2024_def by (auto split: if_splits simp: field_simps)

lemma unrounded_2023_nonneg: "0 \<le> unrounded_2023 x"
  unfolding unrounded_2023_def by (auto split: if_splits simp: field_simps)

lemma unrounded_2024_nonneg: "0 \<le> unrounded_2024 x"
  unfolding unrounded_2024_def by (auto split: if_splits simp: field_simps)

lemma to_cents_mono: "s \<le> t \<Longrightarrow> to_cents s \<le> to_cents t"
  unfolding to_cents_def by (intro divide_right_mono of_int_le_iff [THEN iffD2] floor_mono) simp_all

lemma to_cents_nonneg: "0 \<le> t \<Longrightarrow> 0 \<le> to_cents t"
  unfolding to_cents_def by simp

section \<open>Searching from the end, rounding\<close>


lemma findLast_None: "list_all (\<lambda>x. \<not> p x) xs \<Longrightarrow> findLast p xs = None"
  by (simp add: findLast_def find_None_iff list_all_iff)



lemma to_cents_0: "to_cents 0 = 0"
  by (simp add: to_cents_def floor_rat_half)

section \<open>The base amounts of the table\<close>

text \<open>
  In the 2023-2024 table every base is the tax accumulated below the bracket, and so are
  the bases of the second and third bracket of the 2024-2025 table.
\<close>

lemma base_accumulated_2023:
  "i \<in> {1, 2, 3, 4} \<Longrightarrow>
     base (snd (TAX_BRACKETS ! 0) ! i) = accumulated_base (snd (TAX_BRACKETS ! 0)) i"
  by (auto simp: TAX_BRACKETS_def accumulated_base_def js_sub_def)

lemma base_accumulated_2024:
  "i \<in> {1, 2} \<Longrightarrow>
     base (snd (TAX_BRACKETS ! 1) ! i) = accumulated_base (snd (TAX_BRACKETS ! 1)) i"
  by (auto simp: TAX_BRACKETS_def accumulated_base_def js_sub_def)

text \<open>
  C1 states that every bracket's base equals the tax accumulated from the lower brackets at
  its lower bound, so that the tax before rounding is continuous at every boundary. The
  2024-2025 table departs from it at its last two brackets: the fourth bracket has base
  31388 where the accumulated tax at 135000 is 31288, and the fifth has base 51838 where
  the accumulated tax at 190000 is 51738. One cent of income above either bound raises the
  tax by 100.
\<close>

theorem base_2024_2025_not_accumulated:
  "\<exists>bs. map_of TAX_BRACKETS ''2024-2025'' = Some bs
     \<and> base (bs ! 3) = Fin 31388 \<and> accumulated_base bs 3 = Fin 31288
     \<and> base (bs ! 4) = Fin 51838 \<and> accumulated_base bs 4 = Fin 51738
     \<and> calculateTax ''2024-2025'' (Fin 135000) = Inr (Fin 31288)
     \<and> calculateTax ''2024-2025'' (Fin (13500001 / 100)) = Inr (Fin 31388)
     \<and> calculateTax ''2024-2025'' (Fin 190000) = Inr (Fin 51738)
     \<and> calculateTax ''2024-2025'' (Fin (19000001 / 100)) = Inr (Fin 51838)"
  by (simp add: TAX_BRACKETS_def accumulated_base_def js_sub_def calculateTax_2024_Fin
      unrounded_2024_def to_cents_def floor_rat_numeral)

section \<open>Selection of the bracket\<close>




section \<open>The tax-free threshold\<close>

text \<open>
  C3: for every supported year and every income up to the tax-free threshold 18200,
  \<open>calculateTax\<close> returns exactly 0; whenever no bracket has its lower bound strictly below
  the income the result is 0, and that is the case of every income up to 0.
\<close>

theorem calculateTax_zero_up_to_threshold:
  assumes yr: "yr \<in> set getAvailableYears" and bs: "map_of TAX_BRACKETS yr = Some bs"
  shows "(js_le inc (Fin 18200) \<longrightarrow> calculateTax yr inc = Inr (Fin 0))
       \<and> (list_all (\<lambda>b. \<not> js_gt inc (min_b b)) bs \<longrightarrow> calculateTax yr inc = Inr (Fin 0))
       \<and> (js_le inc (Fin 0) \<longrightarrow> list_all (\<lambda>b. \<not> js_gt inc (min_b b)) bs)"
proof (intro conjI impI)
  assume le: "js_le inc (Fin 18200)"
  show "calculateTax yr inc = Inr (Fin 0)"
  proof (cases inc)
    case (Fin x)
    with le have "x \<le> 18200" by (simp add: js_le_def)
    then have "unrounded_2023 x = 0" "unrounded_2024 x = 0"
      by (simp_all add: unrounded_2023_def unrounded_2024_def)
    with Fin yr show ?thesis
      unfolding member_getAvailableYears
      by (auto simp: calculateTax_2023_Fin calculateTax_2024_Fin to_cents_0)
  next
    case NegInf
    then show ?thesis by (simp add: calculateTax_special [OF yr])
  next
    case NaN
    with le show ?thesis by (simp add: js_le_def)
  next
    case PosInf
    with le show ?thesis by (simp add: js_le_def)
  qed
next
  assume "list_all (\<lambda>b. \<not> js_gt inc (min_b b)) bs"
  then have "findLast (\<lambda>b. js_gt inc (min_b b)) bs = None"
    by (rule findLast_None)
  moreover have "get_property yr = Own bs"
    using bs by (simp add: get_property_def)
  ultimately show "calculateTax yr inc = Inr (Fin 0)"
    by (simp add: calculateTax_def)
next
  assume le: "js_le inc (Fin 0)"
  from bs have "bs = snd (TAX_BRACKETS ! 0) \<or> bs = snd (TAX_BRACKETS ! 1)"
    by (auto simp: map_of_TAX_BRACKETS_Some)
  with le show "list_all (\<lambda>b. \<not> js_gt inc (min_b b)) bs"
    by (cases inc) (auto simp: TAX_BRACKETS_def js_le_def js_gt_def)
qed

theorem calculateTax_zero_up_to_threshold_witness:
  "''2024-2025'' \<in> set getAvailableYears
   \<and> map_of TAX_BRACKETS ''2024-2025'' = Some (snd (TAX_BRACKETS ! 1))
   \<and> js_le (Fin 18200) (Fin 18200)
   \<and> calculateTax ''2024-2025'' (Fin 18200) = Inr (Fin 0)
   \<and> js_le (Fin (- 5)) (Fin 0)
   \<and> list_all (\<lambda>b. \<not> js_gt (Fin (- 5)) (min_b b)) (snd (TAX_BRACKETS ! 1))
   \<and> calculateTax ''2024-2025'' (Fin (- 5)) = Inr (Fin 0)"
proof -
  have yr: "''2024-2025'' \<in> set getAvailableYears"
    by (simp add: member_getAvailableYears)
  have bs: "map_of TAX_BRACKETS ''2024-2025'' = Some (snd (TAX_BRACKETS ! 1))"
    by (simp add: TAX_BRACKETS_def)
  show ?thesis
    using yr bs calculateTax_zero_up_to_threshold [OF yr bs, of "Fin 18200"]
      calculateTax_zero_up_to_threshold [OF yr bs, of "Fin (- 5)"]
    by (simp add: js_le_def)
qed

section \<open>Failures\<close>

text \<open>
  \<open>calculateTax\<close> throws exactly when the year is not an own key of the table, and it throws
  the error naming the year unless the year is the name of a member inherited from
  \<open>Object.prototype\<close>. The validators return an outcome for every string; a year they accept
  is an own key of the table.
\<close>

lemma calculateTax_throws_iff:
  "(\<exists>e. calculateTax yr inc = Inl e) \<longleftrightarrow> map_of TAX_BRACKETS yr = None"
  by (auto simp: calculateTax_def get_property_def Let_def split: option.splits)

lemma calculateTax_Invalid_year:
  "map_of TAX_BRACKETS yr = None \<Longrightarrow> yr \<notin> set Object_prototype_keys \<Longrightarrow>
     calculateTax yr inc = Inl (Error (''Invalid tax year: '' @ yr))"
  by (simp add: calculateTax_def get_property_def)

lemma validateYear_Success_available:
  "validateYear input = Success yr \<Longrightarrow> yr = input \<and> yr \<in> set getAvailableYears"
  by (auto simp: validateYear_def Let_def split: if_splits)

text \<open>
  C4 states that \<open>calculateTax\<close> throws the error naming the invalid year if and only if the
  year is not a key of the table. For the year \<open>toString\<close>, which is not a key, the lookup
  finds the inherited method, the guard \<open>!brackets\<close> lets it pass and the call of
  \<open>findLast\<close> on it throws a \<open>TypeError\<close> instead.
\<close>

theorem calculateTax_inherited_key:
  "map_of TAX_BRACKETS ''toString'' = None
   \<and> ''toString'' \<notin> set getAvailableYears
   \<and> calculateTax ''toString'' (Fin 50000) = Inl TypeError
   \<and> calculateTax ''toString'' (Fin 50000) \<noteq> Inl (Error ''Invalid tax year: toString'')"
  by (simp add: calculateTax_def get_property_def TAX_BRACKETS_def Object_prototype_keys_def
      getAvailableYears_def Object_keys_def)


section \<open>Validation of the income\<close>

lemmas parse_defs = Number_def trim_def is_white_space_def StrUnsignedDecimalLiteral_def
  is_exponent_indicator_def digit_of_def NonDecimalIntegerLiteral_def SignedInteger_def


section \<open>Validation of the year\<close>

lemma trim_empty_iff: "trim s = [] \<longleftrightarrow> list_all is_white_space s"
proof
  assume "trim s = []"
  then have all: "\<forall>c\<in>set (dropWhile is_white_space s). is_white_space c"
    by (simp add: trim_def)
  have "dropWhile is_white_space s = []"
  proof (cases "dropWhile is_white_space s")
    case (Cons c cs)
    then have "\<not> is_white_space c"
      using hd_dropWhile [of is_white_space s] by simp
    with all Cons show ?thesis by simp
  qed simp
  then show "list_all is_white_space s"
    by (simp add: list_all_iff)
next
  assume "list_all is_white_space s"
  then show "trim s = []"
    by (auto simp: trim_def list_all_iff dest: set_dropWhileD)
qed

lemma year_pattern_test_iff:
  "year_pattern_test s \<longleftrightarrow>
     (\<exists>a b. length a = 4 \<and> length b = 4 \<and> list_all is_digit a \<and> list_all is_digit b
            \<and> s = a @ ''-'' @ b)"
proof
  assume t: "year_pattern_test s"
  then have "s = take 4 s @ s ! 4 # drop (Suc 4) s"
    by (intro id_take_nth_drop) (simp add: year_pattern_test_def)
  with t have "s = take 4 s @ ''-'' @ drop 5 s"
    by (simp add: year_pattern_test_def)
  moreover have "length (take 4 s) = 4" "length (drop 5 s) = 4"
    using t by (simp_all add: year_pattern_test_def)
  ultimately show "\<exists>a b. length a = 4 \<and> length b = 4 \<and> list_all is_digit a \<and> list_all is_digit b
            \<and> s = a @ ''-'' @ b"
    using t unfolding year_pattern_test_def by blast
next
  assume "\<exists>a b. length a = 4 \<and> length b = 4 \<and> list_all is_digit a \<and> list_all is_digit b
            \<and> s = a @ ''-'' @ b"
  then show "year_pattern_test s"
    by (auto simp: year_pattern_test_def nth_append)
qed

lemma years_accepted: "y \<in> set getAvailableYears \<Longrightarrow> validateYear y = Success y"
  unfolding member_getAvailableYears
  by (auto simp: validateYear_def trim_def is_white_space_def year_pattern_test_def
      is_digit_def getAvailableYears_def Object_keys_def TAX_BRACKETS_def)

text \<open>
  C6: for every input string \<open>validateYear\<close> returns the error "Year cannot be empty" for
  an empty or white-space-only input; else the error "Year must be in format YYYY-YYYY
  (e.g., y)", \<open>y\<close> being the first available year, when the input is not four digits, a
  hyphen and four digits; else an error naming the input and listing the available years,
  joined by a comma and a space in the order of the table, when the input is not an
  available year; otherwise success with the input unchanged. It accepts every string
  returned by \<open>getAvailableYears\<close>.
\<close>

theorem validateYear_outcome:
  "validateYear input =
     (if trim input = [] then Failure ''Year cannot be empty''
      else if \<not> year_pattern_test input then
        Failure (''Year must be in format YYYY-YYYY (e.g., '' @ hd getAvailableYears @ '')'')
      else if input \<notin> set getAvailableYears then
        Failure (''Year '' @ [CHR 0x22] @ input @ [CHR 0x22] @ '' not available. Choose from: ''
                 @ join '', '' getAvailableYears)
      else Success input)
   \<and> (trim input = [] \<longleftrightarrow> list_all is_white_space input)
   \<and> (year_pattern_test input \<longleftrightarrow>
        (\<exists>a b. length a = 4 \<and> length b = 4 \<and> list_all is_digit a \<and> list_all is_digit b
               \<and> input = a @ ''-'' @ b))
   \<and> getAvailableYears = map fst TAX_BRACKETS
   \<and> join '', '' getAvailableYears = ''2023-2024, 2024-2025''
   \<and> (\<forall>y\<in>set getAvailableYears. validateYear y = Success y)"
proof -
  have "hd getAvailableYears = ''2023-2024''"
    by (simp add: getAvailableYears_def Object_keys_def TAX_BRACKETS_def)
  then have "validateYear input =
     (if trim input = [] then Failure ''Year cannot be empty''
      else if \<not> year_pattern_test input then
        Failure (''Year must be in format YYYY-YYYY (e.g., '' @ hd getAvailableYears @ '')'')
      else if input \<notin> set getAvailableYears then
        Failure (''Year '' @ [CHR 0x22] @ input @ [CHR 0x22] @ '' not available. Choose from: ''
                 @ join '', '' getAvailableYears)
      else Success input)"
    by (simp add: validateYear_def)
  moreover have "join '', '' getAvailableYears = ''2023-2024, 2024-2025''"
    by (simp add: getAvailableYears_def Object_keys_def TAX_BRACKETS_def)
  moreover have "getAvailableYears = map fst TAX_BRACKETS"
    by (simp add: getAvailableYears_def Object_keys_def)
  ultimately show ?thesis
    using trim_empty_iff year_pattern_test_iff years_accepted by blast
qed

theorem validateYear_outcome_witness:
  "''2024-2025'' \<in> set getAvailableYears
   \<and> validateYear ''2024-2025'' = Success ''2024-2025''
   \<and> validateYear ''   '' = Failure ''Year cannot be empty''
   \<and> validateYear ''2023'' = Failure ''Year must be in format YYYY-YYYY (e.g., 2023-2024)''
   \<and> validateYear ''2022-2023''
       = Failure (''Year '' @ [CHR 0x22] @ ''2022-2023'' @ [CHR 0x22]
                  @ '' not available. Choose from: 2023-2024, 2024-2025'')"
proof -
  have m: "''2024-2025'' \<in> set getAvailableYears"
    by (simp add: member_getAvailableYears)
  have "\<forall>y\<in>set getAvailableYears. validateYear y = Success y"
    using validateYear_outcome [of "''2024-2025''"] by blast
  with m have "validateYear ''2024-2025'' = Success ''2024-2025''"
    by blast
  moreover have "validateYear ''   '' = Failure ''Year cannot be empty''"
    by (simp add: validateYear_def trim_def is_white_space_def)
  moreover have
    "validateYear ''2023'' = Failure ''Year must be in format YYYY-YYYY (e.g., 2023-2024)''"
    by (simp add: validateYear_def trim_def is_white_space_def year_pattern_test_def)
  moreover have "validateYear ''2022-2023''
       = Failure (''Year '' @ [CHR 0x22] @ ''2022-2023'' @ [CHR 0x22]
                  @ '' not available. Choose from: 2023-2024, 2024-2025'')"
    by (simp add: validateYear_def trim_def is_white_space_def year_pattern_test_def
        is_digit_def getAvailableYears_def Object_keys_def TAX_BRACKETS_def)
  ultimately show ?thesis
    using m by blast
qed

section \<open>The result record\<close>

lemma validateIncome_Success_range:
  assumes "validateIncome input = Success inc"
  shows "\<exists>x. inc = Fin x \<and> 0 \<le> x \<and> x \<le> 99999999999 / 100"
proof (cases "Number input")
  case (Fin x)
  with assms have "inc = Fin x \<and> 0 \<le> x \<and> x \<le> 99999999999 / 100"
    by (auto simp: validateIncome_def Number_isNaN_def js_gt_def Let_def split: if_splits)
  then show ?thesis by blast
next
  case NaN
  with assms show ?thesis
    by (simp add: validateIncome_def Number_isNaN_def split: if_splits)
next
  case NegInf
  with assms show ?thesis
    by (simp add: validateIncome_def Number_isNaN_def split: if_splits)
next
  case PosInf
  with assms show ?thesis
    by (simp add: validateIncome_def Number_isNaN_def js_gt_def split: if_splits)
qed

text \<open>
  A year and an income accepted by the validators are an available year and a finite
  income between 0 and 999999999.99 (\<open>validateYear_Success_available\<close>,
  \<open>validateIncome_Success_range\<close>).
\<close>

text \<open>
  C7: for every available year and every finite income, \<open>calculateResult\<close> returns a
  record in which \<open>afterTax + tax = income\<close> holds exactly, the effective rate is
  \<open>tax / income * 100\<close> for a positive income and 0 for the income 0; the rate is the exact
  quotient, with no rounding to two decimals.
\<close>

theorem calculateResult_identities:
  assumes yr: "yr \<in> set getAvailableYears"
  shows "\<exists>r t. calculateResult yr (Fin x) = Inr r
           \<and> year r = yr \<and> income r = Fin x \<and> tax r = Fin t
           \<and> calculateTax yr (Fin x) = Inr (tax r)
           \<and> js_add (afterTax r) (tax r) = income r
           \<and> afterTax r = Fin (x - t)
           \<and> (js_gt (income r) (Fin 0) \<longrightarrow>
                effectiveRate r = js_mul (js_div (tax r) (income r)) (Fin 100))
           \<and> (0 < x \<longrightarrow> effectiveRate r = Fin (t / x * 100))
           \<and> (x = 0 \<longrightarrow> effectiveRate r = Fin 0)"
proof -
  from yr have "yr = ''2023-2024'' \<or> yr = ''2024-2025''"
    by (simp add: member_getAvailableYears)
  then obtain t where t: "calculateTax yr (Fin x) = Inr (Fin t)"
    using calculateTax_2023_Fin calculateTax_2024_Fin by blast
  show ?thesis
    using t by (simp add: calculateResult_def js_sub_def js_gt_def)
qed

theorem calculateResult_identities_witness:
  "validateYear ''2023-2024'' = Success ''2023-2024''
   \<and> validateIncome ''50000'' = Success (Fin 50000)
   \<and> ''2023-2024'' \<in> set getAvailableYears
   \<and> (\<exists>r. calculateResult ''2023-2024'' (Fin 50000) = Inr r
          \<and> tax r = Fin 6717 \<and> afterTax r = Fin 43283
          \<and> js_add (afterTax r) (tax r) = Fin 50000
          \<and> effectiveRate r = Fin (13434 / 1000))"
proof -
  have v: "validateYear ''2023-2024'' = Success ''2023-2024''"
    by (simp add: years_accepted member_getAvailableYears)
  have yr: "''2023-2024'' \<in> set getAvailableYears"
    using validateYear_Success_available [OF v] by simp
  have inc: "validateIncome ''50000'' = Success (Fin 50000)"
    by (simp add: validateIncome_def parse_defs Number_isNaN_def js_gt_def)
  show ?thesis
    using v yr inc calculateResult_identities [OF yr, of 50000]
    by (auto simp: calculateTax_2023_Fin unrounded_2023_def to_cents_def floor_rat_numeral)
qed

section \<open>The driver\<close>

lemma calculateTax_returns:
  "yr \<in> set getAvailableYears \<Longrightarrow> \<exists>t. calculateTax yr inc = Inr t"
  using calculateTax_throws_iff [of yr inc] map_of_TAX_BRACKETS_None [of yr]
  by (cases "calculateTax yr inc") auto

lemma calculateResult_returns:
  assumes "validateYear yearInput = Success yr"
  shows "\<exists>r. calculateResult yr inc = Inr r"
proof -
  from assms have "yr \<in> set getAvailableYears"
    using validateYear_Success_available by blast
  then obtain t where "calculateTax yr inc = Inr t"
    using calculateTax_returns by blast
  then show ?thesis
    by (simp add: calculateResult_def)
qed

lemma getValidYear_Success:
  "validateYear a = Success d \<Longrightarrow>
     getValidYear \<lparr>answers = a # rest, asked = qs, outputs = os\<rparr>
     = Some (d, \<lparr>answers = rest, asked = qs @ [''Please enter the income year (e.g., 2023-2024): ''], outputs = os\<rparr>)"
  by (subst getValidYear.simps) (simp add: prompt_def)

lemma getValidYear_Failure:
  "validateYear a = Failure e \<Longrightarrow>
     getValidYear \<lparr>answers = a # rest, asked = qs, outputs = os\<rparr>
     = getValidYear \<lparr>answers = rest, asked = qs @ [''Please enter the income year (e.g., 2023-2024): ''], outputs = os @ [Log e]\<rparr>"
  by (subst getValidYear.simps) (simp add: prompt_def log_def)

lemma getValidYear_retries:
  assumes "map validateYear bad = map Failure errs" and "validateYear good = Success d"
  shows "getValidYear \<lparr>answers = bad @ good # rest, asked = qs, outputs = os\<rparr>
         = Some (d, \<lparr>answers = rest,
                      asked = qs @ replicate (Suc (length bad)) ''Please enter the income year (e.g., 2023-2024): '',
                      outputs = os @ map Log errs\<rparr>)"
  using assms
proof (induction bad arbitrary: qs os errs)
  case Nil
  then show ?case
    by (simp add: getValidYear_Success)
next
  case (Cons b bad)
  then obtain e errs' where errs: "errs = e # errs'" and b: "validateYear b = Failure e"
    and rest: "map validateYear bad = map Failure errs'"
    by (cases errs) auto
  show ?case
    by (simp add: getValidYear_Failure [OF b] Cons.IH [OF rest Cons.prems(2)] errs
        replicate_append_same)
qed

lemma getValidIncome_Success:
  "validateIncome a = Success d \<Longrightarrow>
     getValidIncome \<lparr>answers = a # rest, asked = qs, outputs = os\<rparr>
     = Some (d, \<lparr>answers = rest, asked = qs @ [''Please enter your total taxable income: $''], outputs = os\<rparr>)"
  by (subst getValidIncome.simps) (simp add: prompt_def)

lemma getValidIncome_Failure:
  "validateIncome a = Failure e \<Longrightarrow>
     getValidIncome \<lparr>answers = a # rest, asked = qs, outputs = os\<rparr>
     = getValidIncome \<lparr>answers = rest, asked = qs @ [''Please enter your total taxable income: $''], outputs = os @ [Log e]\<rparr>"
  by (subst getValidIncome.simps) (simp add: prompt_def log_def)

lemma getValidIncome_retries:
  assumes "map validateIncome bad = map Failure errs" and "validateIncome good = Success d"
  shows "getValidIncome \<lparr>answers = bad @ good # rest, asked = qs, outputs = os\<rparr>
         = Some (d, \<lparr>answers = rest,
                      asked = qs @ replicate (Suc (length bad)) ''Please enter your total taxable income: $'',
                      outputs = os @ map Log errs\<rparr>)"
  using assms
proof (induction bad arbitrary: qs os errs)
  case Nil
  then show ?case
    by (simp add: getValidIncome_Success)
next
  case (Cons b bad)
  then obtain e errs' where errs: "errs = e # errs'" and b: "validateIncome b = Failure e"
    and rest: "map validateIncome bad = map Failure errs'"
    by (cases errs) auto
  show ?case
    by (simp add: getValidIncome_Failure [OF b] Cons.IH [OF rest Cons.prems(2)] errs
        replicate_append_same)
qed

text \<open>
  C8: each prompt loop asks again after every answer that fails validation, logs the message
  of each failure and returns the first validated value; \<open>run\<close> then returns the result
  record of the validated year and income after showing it. On the answers
  "invalid-year", "2023-2024", "abc", "50000" it logs exactly two messages and returns the
  record for the year 2023-2024 and the income 50000.
\<close>

theorem run_retries_until_valid:
  assumes ybad: "map validateYear ybad = map Failure yerrs"
    and ygood: "validateYear ygood = Success yr"
    and ibad: "map validateIncome ibad = map Failure ierrs"
    and igood: "validateIncome igood = Success inc"
  shows "getValidYear \<lparr>answers = ybad @ ygood # rest, asked = qs, outputs = os\<rparr>
           = Some (yr, \<lparr>answers = rest,
                asked = qs @ replicate (Suc (length ybad))
                               ''Please enter the income year (e.g., 2023-2024): '',
                outputs = os @ map Log yerrs\<rparr>)
       \<and> getValidIncome \<lparr>answers = ibad @ igood # rest, asked = qs, outputs = os\<rparr>
           = Some (inc, \<lparr>answers = rest,
                asked = qs @ replicate (Suc (length ibad))
                               ''Please enter your total taxable income: $'',
                outputs = os @ map Log ierrs\<rparr>)
       \<and> (\<exists>r. calculateResult yr inc = Inr r
            \<and> run \<lparr>answers = ybad @ ygood # ibad @ igood # rest, asked = qs, outputs = os\<rparr>
                = Some (Inr r, \<lparr>answers = rest,
                     asked = qs
                       @ replicate (Suc (length ybad))
                           ''Please enter the income year (e.g., 2023-2024): ''
                       @ replicate (Suc (length ibad))
                           ''Please enter your total taxable income: $'',
                     outputs = os @ map Log yerrs @ map Log ierrs @ [ShowResult r]\<rparr>))"
proof -
  obtain r where r: "calculateResult yr inc = Inr r"
    using calculateResult_returns [OF ygood] by blast
  have "run \<lparr>answers = ybad @ ygood # ibad @ igood # rest, asked = qs, outputs = os\<rparr>
                = Some (Inr r, \<lparr>answers = rest,
                     asked = qs
                       @ replicate (Suc (length ybad))
                           ''Please enter the income year (e.g., 2023-2024): ''
                       @ replicate (Suc (length ibad))
                           ''Please enter your total taxable income: $'',
                     outputs = os @ map Log yerrs @ map Log ierrs @ [ShowResult r]\<rparr>)"
    unfolding run_def
    by (simp add: getValidYear_retries [OF ybad ygood] getValidIncome_retries [OF ibad igood]
        r showResult_def)
  with r show ?thesis
    using getValidYear_retries [OF ybad ygood] getValidIncome_retries [OF ibad igood] by blast
qed

theorem run_retries_until_valid_witness:
  "map validateYear [''invalid-year'']
     = map Failure [''Year must be in format YYYY-YYYY (e.g., 2023-2024)'']
   \<and> validateYear ''2023-2024'' = Success ''2023-2024''
   \<and> map validateIncome [''abc''] = map Failure [''Please enter a valid numeric income'']
   \<and> validateIncome ''50000'' = Success (Fin 50000)
   \<and> run \<lparr>answers = [''invalid-year'', ''2023-2024'', ''abc'', ''50000''], asked = [], outputs = []\<rparr>
       = Some (Inr \<lparr>year = ''2023-2024'', income = Fin 50000, tax = Fin 6717,
                    afterTax = Fin 43283, effectiveRate = Fin (6717 / 500)\<rparr>,
               \<lparr>answers = [],
                asked = [''Please enter the income year (e.g., 2023-2024): '',
                         ''Please enter the income year (e.g., 2023-2024): '',
                         ''Please enter your total taxable income: $'',
                         ''Please enter your total taxable income: $''],
                outputs = [Log ''Year must be in format YYYY-YYYY (e.g., 2023-2024)'',
                           Log ''Please enter a valid numeric income'',
                           ShowResult \<lparr>year = ''2023-2024'', income = Fin 50000, tax = Fin 6717,
                             afterTax = Fin 43283, effectiveRate = Fin (6717 / 500)\<rparr>]\<rparr>)"
proof -
  have ybad: "map validateYear [''invalid-year'']
     = map Failure [''Year must be in format YYYY-YYYY (e.g., 2023-2024)'']"
    by (simp add: validateYear_def trim_def is_white_space_def year_pattern_test_def)
  have ygood: "validateYear ''2023-2024'' = Success ''2023-2024''"
    by (simp add: years_accepted member_getAvailableYears)
  have ibad: "map validateIncome [''abc''] = map Failure [''Please enter a valid numeric income'']"
    by (simp add: validateIncome_def parse_defs Number_isNaN_def)
  have igood: "validateIncome ''50000'' = Success (Fin 50000)"
    by (simp add: validateIncome_def parse_defs Number_isNaN_def js_gt_def)
  have r: "calculateResult ''2023-2024'' (Fin 50000)
      = Inr \<lparr>year = ''2023-2024'', income = Fin 50000, tax = Fin 6717,
                    afterTax = Fin 43283, effectiveRate = Fin (6717 / 500)\<rparr>"
    by (simp add: calculateResult_def calculateTax_2023_Fin unrounded_2023_def to_cents_def
        floor_rat_numeral js_sub_def js_gt_def)
  show ?thesis
    using ybad ygood ibad igood
      run_retries_until_valid [OF ybad ygood ibad igood, of "[]" "[]" "[]"]
    by (simp add: r)
qed


section \<open>The worked example\<close>

text \<open>
  C9: \<open>calculateTax("2023-2024", 50000)\<close> returns exactly 6717, which is
  \<open>5092 + (50000 - 45000) * 0.325\<close>, and the result record for the same arguments has
  \<open>afterTax = 43283\<close> and \<open>effectiveRate = 6717 / 50000 * 100\<close>.
\<close>

theorem calculateTax_example_50000:
  "calculateTax ''2023-2024'' (Fin 50000) = Inr (Fin 6717)
   \<and> Fin 6717 = js_add (Fin 5092) (js_mul (js_sub (Fin 50000) (Fin 45000)) (Fin (325 / 1000)))
   \<and> calculateResult ''2023-2024'' (Fin 50000) =
       Inr \<lparr>year = ''2023-2024'', income = Fin 50000, tax = Fin 6717, afterTax = Fin 43283,
            effectiveRate = js_mul (js_div (Fin 6717) (Fin 50000)) (Fin 100)\<rparr>"
  by (simp add: calculateResult_def calculateTax_def get_property_2023 TAX_BRACKETS_def
      findLast_def js_gt_def js_sub_def floor_rat_numeral)

section \<open>Monotonicity\<close>

text \<open>
  C10: for every supported year the tax is monotone non-decreasing in the income: whenever
  \<open>a <= b\<close> holds, \<open>calculateTax(year, a) <= calculateTax(year, b)\<close> holds, both calls
  returning normally.
\<close>

theorem calculateTax_monotone:
  assumes yr: "yr \<in> set getAvailableYears" and le: "js_le a b"
  shows "\<exists>ta tb. calculateTax yr a = Inr ta \<and> calculateTax yr b = Inr tb \<and> js_le ta tb"
proof (cases a)
  case NaN
  with le show ?thesis by (simp add: js_le_def)
next
  case NegInf
  show ?thesis
  proof (cases b)
    case (Fin y)
    with NegInf yr show ?thesis
      unfolding member_getAvailableYears
      by (auto simp: calculateTax_special [OF yr] calculateTax_2023_Fin calculateTax_2024_Fin
          js_le_def not_less to_cents_nonneg unrounded_2023_nonneg unrounded_2024_nonneg)
  next
    case NaN
    with le show ?thesis by (simp add: js_le_def)
  next
    case NegInf
    with \<open>a = NegInf\<close> show ?thesis by (simp add: calculateTax_special [OF yr] js_le_def)
  next
    case PosInf
    with \<open>a = NegInf\<close> show ?thesis by (simp add: calculateTax_special [OF yr] js_le_def)
  qed
next
  case PosInf
  with le have "b = PosInf" by (cases b) (simp_all add: js_le_def)
  with PosInf show ?thesis by (simp add: calculateTax_special [OF yr] js_le_def)
next
  case (Fin x)
  show ?thesis
  proof (cases b)
    case (Fin y)
    with \<open>a = Fin x\<close> le have "x \<le> y" by (simp add: js_le_def)
    with Fin \<open>a = Fin x\<close> yr show ?thesis
      unfolding member_getAvailableYears
      by (auto simp: calculateTax_2023_Fin calculateTax_2024_Fin js_le_def not_less
          to_cents_mono unrounded_2023_mono unrounded_2024_mono)
  next
    case PosInf
    with \<open>a = Fin x\<close> yr show ?thesis
      unfolding member_getAvailableYears
      by (auto simp: calculateTax_special [OF yr] calculateTax_2023_Fin calculateTax_2024_Fin
          js_le_def)
  next
    case NaN
    with le show ?thesis by (simp add: js_le_def)
  next
    case NegInf
    with \<open>a = Fin x\<close> le show ?thesis by (simp add: js_le_def)
  qed
qed


theorem calculateTax_monotone_witness:
  "''2024-2025'' \<in> set getAvailableYears \<and> js_le (Fin 135000) (Fin 150000)
   \<and> calculateTax ''2024-2025'' (Fin 135000) = Inr (Fin 31288)
   \<and> calculateTax ''2024-2025'' (Fin 150000) = Inr (Fin 36938)
   \<and> js_le (Fin 31288) (Fin 36938)"
proof -
  have yr: "''2024-2025'' \<in> set getAvailableYears"
    by (simp add: member_getAvailableYears)
  have le: "js_le (Fin 135000) (Fin 150000)"
    by (simp add: js_le_def)
  show ?thesis
    using yr le calculateTax_monotone [OF yr le]
    by (simp add: calculateTax_2024_Fin unrounded_2024_def to_cents_def floor_rat_numeral js_le_def)
qed

end
